theory Spec2Isabelle
  imports Complex_Main "HOL-Library.Multiset" "HOL-Library.AList"
begin

section \<open>Values\<close>

text \<open>
  A Python float is either a finite binary64 number, an infinity or a NaN. A finite float
  is represented by the rational it denotes exactly. The conversion of a decimal to the
  nearest binary64 number is done by the Python runtime, for \<^verbatim>\<open>float(text)\<close> as for a
  float literal; it is not code of the scraper, so the functions below take it as the
  parameter \<open>rnd\<close>. Where a property is evaluated on given texts, the rounding is \<open>Fin\<close>,
  which leaves a decimal as it is, and the decimals are ones that binary64 represents
  exactly.
\<close>

datatype pyfloat = Fin rat | PInf | NInf | NaN

text \<open>
  The scalars that the normalizer and the snapshot builder produce: \<^verbatim>\<open>None\<close>, an
  \<^verbatim>\<open>int\<close>, a \<^verbatim>\<open>float\<close> or a \<^verbatim>\<open>str\<close>.
\<close>

datatype scalar = SNone | SInt int | SFloat pyfloat | SStr string

text \<open>
  What \<^verbatim>\<open>json.load\<close> returns. A \<^verbatim>\<open>dict\<close> keeps its insertion order, so it is an
  association list; \<^verbatim>\<open>json.load\<close> keeps one entry per key.
\<close>

datatype json =
    JNull
  | JBool bool
  | JInt int
  | JFloat pyfloat
  | JStr string
  | JArr "json list"
  | JObj "(string \<times> json) list"

datatype exn =
    KeyError
  | TypeError
  | AttributeError
  | FileNotFoundError
  | JSONDecodeError
  | OSError
  | PlaywrightError

fun scalar_json :: "scalar \<Rightarrow> json" where
  "scalar_json SNone = JNull"
| "scalar_json (SInt i) = JInt i"
| "scalar_json (SFloat x) = JFloat x"
| "scalar_json (SStr s) = JStr s"

section \<open>Strings\<close>

text \<open>
  Strings are modelled over the 8-bit characters of HOL and the character classes below are
  those of ASCII text. (Python also counts some code points beyond ASCII as white space
  or as decimal digits.)
\<close>

definition is_space :: "char \<Rightarrow> bool" where
  "is_space c = (let n = (of_char c :: nat) in n = 32 \<or> (9 \<le> n \<and> n \<le> 13) \<or> (28 \<le> n \<and> n \<le> 31))"

definition is_digit :: "char \<Rightarrow> bool" where
  "is_digit c = (let n = (of_char c :: nat) in 48 \<le> n \<and> n \<le> 57)"

definition digit_val :: "char \<Rightarrow> nat" where
  "digit_val c = of_char c - 48"

text \<open>
  \<^verbatim>\<open>str.lower()\<close>, character by character: a capital letter, from \<open>A\<close> (65) to \<open>Z\<close> (90),
  becomes the letter 32 further, which is the same character with bit 5 set.
\<close>

definition lower_char :: "char \<Rightarrow> char" where
  "lower_char c =
     (let n = (of_char c :: nat) in
      if 65 \<le> n \<and> n \<le> 90
      then (case c of Char b0 b1 b2 b3 b4 b5 b6 b7 \<Rightarrow> Char b0 b1 b2 b3 b4 True b6 b7)
      else c)"

definition lower :: "string \<Rightarrow> string" where
  "lower s = map lower_char s"

text \<open>\<^verbatim>\<open>str.strip()\<close>: white space is removed at both ends.\<close>

definition strip :: "string \<Rightarrow> string" where
  "strip s = rev (dropWhile is_space (rev (dropWhile is_space s)))"

text \<open>
  \<^verbatim>\<open>int\<close> and \<^verbatim>\<open>float\<close> skip blanks of their own at both ends of an ASCII text: the
  space and the characters 9 to 13, but not the separators 28 to 31 that
  \<^verbatim>\<open>str.strip()\<close> removes.
\<close>

definition is_blank :: "char \<Rightarrow> bool" where
  "is_blank c = (let n = (of_char c :: nat) in n = 32 \<or> (9 \<le> n \<and> n \<le> 13))"

definition skip_blanks :: "string \<Rightarrow> string" where
  "skip_blanks s = rev (dropWhile is_blank (rev (dropWhile is_blank s)))"

text \<open>
  \<^verbatim>\<open>str.replace(old, new)\<close>: every occurrence of \<open>old\<close>, found from left to right without
  overlap, is replaced; an empty \<open>old\<close> matches before every character and at the end.
\<close>

function replace :: "string \<Rightarrow> string \<Rightarrow> string \<Rightarrow> string" where
  "replace old new s =
     (if old = [] then new @ concat (map (\<lambda>c. c # new) s)
      else if s = [] then []
      else if take (length old) s = old then new @ replace old new (drop (length old) s)
      else hd s # replace old new (tl s))"
  by pat_completeness auto
termination
  by (relation "measure (\<lambda>(old, new, s). length s)") (auto simp: neq_Nil_conv)

declare replace.simps [simp del]

section \<open>Python's number parsers\<close>

text \<open>
  A digit part is a digit followed by digits, each optionally preceded by one underscore.
  The result is the digits without the underscores.
\<close>

fun digitpart :: "string \<Rightarrow> string option" where
  "digitpart [] = None"
| "digitpart [c] = (if is_digit c then Some [c] else None)"
| "digitpart (c # d # r) =
     (if \<not> is_digit c then None
      else if d = CHR ''_'' then map_option (Cons c) (digitpart r)
      else map_option (Cons c) (digitpart (d # r)))"

definition digits_nat :: "string \<Rightarrow> nat" where
  "digits_nat ds = foldl (\<lambda>a c. 10 * a + digit_val c) 0 ds"

text \<open>An optional sign: whether it is a minus, and the rest.\<close>

definition split_sign :: "string \<Rightarrow> bool \<times> string" where
  "split_sign s =
     (case s of
        [] \<Rightarrow> (False, [])
      | c # r \<Rightarrow> if c = CHR ''-'' then (True, r) else if c = CHR ''+'' then (False, r) else (False, s))"

text \<open>
  \<^verbatim>\<open>int(text)\<close>, in base ten, blanks skipped: \<open>None\<close> stands for the \<^verbatim>\<open>ValueError\<close> that the normalizer
  catches. (A Python that limits the number of digits of the text rejects a longer one;
  there is no such limit here.)
\<close>

definition py_int :: "string \<Rightarrow> int option" where
  "py_int s =
     (let (neg, body) = split_sign (skip_blanks s) in
      case digitpart body of
        None \<Rightarrow> None
      | Some ds \<Rightarrow> Some (if neg then - int (digits_nat ds) else int (digits_nat ds)))"

text \<open>
  The mantissa of a float: \<open>[digitpart] "." digitpart | digitpart ["."]\<close>. The result is
  the digits before and after the point.
\<close>

definition mantissa :: "string \<Rightarrow> (string \<times> string) option" where
  "mantissa m =
     (let ip = takeWhile (\<lambda>c. c \<noteq> CHR ''.'') m; rest = dropWhile (\<lambda>c. c \<noteq> CHR ''.'') m in
      if rest = [] then map_option (\<lambda>ds. (ds, [])) (digitpart ip)
      else if tl rest = [] then map_option (\<lambda>ds. (ds, [])) (digitpart ip)
      else if ip = [] then map_option (\<lambda>fs. ([], fs)) (digitpart (tl rest))
      else (case (digitpart ip, digitpart (tl rest)) of
              (Some ds, Some fs) \<Rightarrow> Some (ds, fs)
            | _ \<Rightarrow> None))"

text \<open>The exponent: nothing, or \<open>e\<close> or \<open>E\<close>, an optional sign and a digit part.\<close>

definition exponent :: "string \<Rightarrow> int option" where
  "exponent x =
     (if x = [] then Some 0
      else (let (neg, body) = split_sign (tl x) in
            case digitpart body of
              None \<Rightarrow> None
            | Some ds \<Rightarrow> Some (if neg then - int (digits_nat ds) else int (digits_nat ds))))"

definition is_e :: "char \<Rightarrow> bool" where
  "is_e c = (c = CHR ''e'' \<or> c = CHR ''E'')"

definition scale10 :: "rat \<Rightarrow> int \<Rightarrow> rat" where
  "scale10 q e = (if 0 \<le> e then q * 10 ^ nat e else q / 10 ^ nat (- e))"

text \<open>
  \<^verbatim>\<open>float(text)\<close>: blanks are skipped, then an optional sign is followed by
  \<open>inf\<close>, \<open>infinity\<close> or \<open>nan\<close> in any case, or by a decimal number with an optional
  exponent. \<open>None\<close> stands for the \<^verbatim>\<open>ValueError\<close> that the normalizer catches.
\<close>

definition py_float :: "(rat \<Rightarrow> pyfloat) \<Rightarrow> string \<Rightarrow> pyfloat option" where
  "py_float rnd s =
     (let (neg, body) = split_sign (skip_blanks s); low = lower body in
      if low = ''inf'' \<or> low = ''infinity'' then Some (if neg then NInf else PInf)
      else if low = ''nan'' then Some NaN
      else (case (mantissa (takeWhile (\<lambda>c. \<not> is_e c) body),
                  exponent (dropWhile (\<lambda>c. \<not> is_e c) body)) of
              (Some (ds, fs), Some e) \<Rightarrow>
                (let q = scale10 (of_nat (digits_nat ds) + of_nat (digits_nat fs) / 10 ^ length fs) e
                 in Some (rnd (if neg then - q else q)))
            | _ \<Rightarrow> None))"

section \<open>The value normalizer\<close>

text \<open>
  \<^verbatim>\<open>clean_and_convert_values(value, data_type)\<close>. The value is \<^verbatim>\<open>None\<close> or a string; the
  data type is a string, and any data type that the function does not know returns the
  stripped text. On a string, the only exception that the calls of the function raise is
  the \<^verbatim>\<open>ValueError\<close> of \<^verbatim>\<open>int\<close> and \<^verbatim>\<open>float\<close>, which it catches: the function returns a
  scalar and raises nothing.
\<close>

definition float_or_none :: "pyfloat option \<Rightarrow> scalar" where
  "float_or_none r = (case r of None \<Rightarrow> SNone | Some x \<Rightarrow> SFloat x)"

definition int_or_none :: "int option \<Rightarrow> scalar" where
  "int_or_none r = (case r of None \<Rightarrow> SNone | Some i \<Rightarrow> SInt i)"

definition clean_and_convert_values :: "(rat \<Rightarrow> pyfloat) \<Rightarrow> string option \<Rightarrow> string \<Rightarrow> scalar" where
  "clean_and_convert_values rnd val data_type =
     (case val of
        None \<Rightarrow> SNone
      | Some v0 \<Rightarrow>
          (let v = strip v0 in
           if data_type = ''str'' then SStr v
           else if data_type = ''int'' \<or> data_type = ''float'' then
             (let v1 = replace '','' [] v in
              if data_type = ''float''
              then float_or_none (py_float rnd (replace ''K'' ''000'' (replace ''$'' [] v1)))
              else int_or_none (py_int (replace ''K'' ''000'' v1)))
           else if data_type = ''latency'' then float_or_none (py_float rnd (replace ''s'' [] v))
           else if data_type = ''throughput'' then float_or_none (py_float rnd (replace ''t/s'' [] v))
           else SStr v))"

section \<open>The snapshot builder\<close>

text \<open>
  A provider record, as the dictionary literal \<^verbatim>\<open>provider_data\<close> builds it: a name and six
  metrics, each a scalar.
\<close>

record metric_set =
  context_length :: scalar
  max_output_tokens :: scalar
  input_price_per_million :: scalar
  output_price_per_million :: scalar
  latency_seconds :: scalar
  throughput_tokens_per_second :: scalar

record provider =
  name :: scalar
  metrics :: metric_set

text \<open>The metrics dictionary, in the order of its keys.\<close>

definition metric_items :: "metric_set \<Rightarrow> (string \<times> scalar) list" where
  "metric_items m =
     [(''context_length'', context_length m),
      (''max_output_tokens'', max_output_tokens m),
      (''input_price_per_million'', input_price_per_million m),
      (''output_price_per_million'', output_price_per_million m),
      (''latency_seconds'', latency_seconds m),
      (''throughput_tokens_per_second'', throughput_tokens_per_second m)]"

definition provider_json :: "provider \<Rightarrow> json" where
  "provider_json p =
     JObj [(''name'', scalar_json (name p)),
           (''metrics'', JObj (map (\<lambda>kv. (fst kv, scalar_json (snd kv))) (metric_items (metrics p))))]"

definition snapshot_json :: "provider list \<Rightarrow> json" where
  "snapshot_json ps = JArr (map provider_json ps)"

text \<open>The record that stands for "no provider data": the name and every metric are \<^verbatim>\<open>None\<close>.\<close>

definition sentinel :: provider where
  "sentinel =
     \<lparr>name = SNone,
      metrics = \<lparr>context_length = SNone, max_output_tokens = SNone,
                 input_price_per_million = SNone, output_price_per_million = SNone,
                 latency_seconds = SNone, throughput_tokens_per_second = SNone\<rparr>\<rparr>"

text \<open>
  What the browser shows for one provider row: whether the located name element is truthy,
  what \<^verbatim>\<open>inner_text()\<close> of the name element gives, and the metric elements with what
  \<^verbatim>\<open>inner_text()\<close> of each gives. \<open>Inl\<close> is an exception raised by the browser.
\<close>

record row =
  name_el :: bool
  name_text :: "exn + string"
  metric_els :: "exn + (exn + string) list"

text \<open>The list comprehension over the metric elements: the first exception leaves it.\<close>

fun inner_texts :: "(exn + string) list \<Rightarrow> exn + string list" where
  "inner_texts [] = Inr []"
| "inner_texts (Inl e # ms) = Inl e"
| "inner_texts (Inr t # ms) = (case inner_texts ms of Inl e \<Rightarrow> Inl e | Inr ts \<Rightarrow> Inr (t # ts))"

text \<open>
  The body of the loop over the rows: \<open>None\<close> when the row is skipped (no name element,
  fewer than six metrics, or an exception), the record that is appended otherwise.
\<close>

definition process_row :: "(rat \<Rightarrow> pyfloat) \<Rightarrow> row \<Rightarrow> provider option" where
  "process_row rnd r =
     (if \<not> name_el r then None
      else case name_text r of
        Inl e \<Rightarrow> None
      | Inr t \<Rightarrow>
          (case metric_els r of
             Inl e \<Rightarrow> None
           | Inr ms \<Rightarrow>
               if length ms < 6 then None
               else (case inner_texts ms of
                       Inl e \<Rightarrow> None
                     | Inr metrics_text \<Rightarrow>
                         Some \<lparr>name = SStr (replace '' '' ''_'' (lower t)),
                               metrics =
                                 \<lparr>context_length = clean_and_convert_values rnd (Some (metrics_text ! 0)) ''int'',
                                  max_output_tokens = clean_and_convert_values rnd (Some (metrics_text ! 1)) ''int'',
                                  input_price_per_million = clean_and_convert_values rnd (Some (metrics_text ! 2)) ''float'',
                                  output_price_per_million = clean_and_convert_values rnd (Some (metrics_text ! 3)) ''float'',
                                  latency_seconds = clean_and_convert_values rnd (Some (metrics_text ! 4)) ''latency'',
                                  throughput_tokens_per_second =
                                    clean_and_convert_values rnd (Some (metrics_text ! 5)) ''throughput''\<rparr>\<rparr>)))"

text \<open>
  What the browser shows for one model page: the browser or the page fails with an
  exception that \<^verbatim>\<open>scrape_providers\<close> does not catch, there is no Providers tab, the
  provider section does not show, or the provider rows are found.
\<close>

datatype page = Unreachable | NoProvidersTab | NoProviderSection | ProviderRows "row list"

definition scrape_providers :: "(rat \<Rightarrow> pyfloat) \<Rightarrow> page \<Rightarrow> exn + provider list" where
  "scrape_providers rnd pg =
     (case pg of
        Unreachable \<Rightarrow> Inl PlaywrightError
      | NoProvidersTab \<Rightarrow> Inr [sentinel]
      | NoProviderSection \<Rightarrow> Inr [sentinel]
      | ProviderRows rows \<Rightarrow>
          if length rows = 0 then Inr [sentinel]
          else Inr (List.map_filter (process_row rnd) rows))"

section \<open>The change detector\<close>

text \<open>
  The existing providers come from the catalog file and are any JSON value; the new
  providers are what \<^verbatim>\<open>scrape_providers\<close> returned. The diagnostics that the function
  prints, the only use of its argument \<^verbatim>\<open>model_id\<close>, are left out.
\<close>

definition py_len :: "json \<Rightarrow> exn + nat" where
  "py_len j =
     (case j of
        JArr xs \<Rightarrow> Inr (length xs)
      | JObj kvs \<Rightarrow> Inr (length kvs)
      | JStr s \<Rightarrow> Inr (length s)
      | _ \<Rightarrow> Inl TypeError)"

text \<open>\<^verbatim>\<open>j[i]\<close> for an index \<open>i\<close> below \<^verbatim>\<open>len(j)\<close>; the keys of a dictionary are strings.\<close>

definition py_index :: "json \<Rightarrow> nat \<Rightarrow> exn + json" where
  "py_index j i =
     (case j of
        JArr xs \<Rightarrow> Inr (xs ! i)
      | JStr s \<Rightarrow> Inr (JStr [s ! i])
      | JObj kvs \<Rightarrow> Inl KeyError
      | _ \<Rightarrow> Inl TypeError)"

text \<open>\<^verbatim>\<open>j[key]\<close> for a string key.\<close>

definition py_getitem :: "json \<Rightarrow> string \<Rightarrow> exn + json" where
  "py_getitem j k =
     (case j of
        JObj kvs \<Rightarrow> (case map_of kvs k of None \<Rightarrow> Inl KeyError | Some v \<Rightarrow> Inr v)
      | _ \<Rightarrow> Inl TypeError)"

text \<open>\<^verbatim>\<open>j.get(key)\<close>.\<close>

definition py_get :: "json \<Rightarrow> string \<Rightarrow> exn + json" where
  "py_get j k =
     (case j of
        JObj kvs \<Rightarrow> (case map_of kvs k of None \<Rightarrow> Inr JNull | Some v \<Rightarrow> Inr v)
      | _ \<Rightarrow> Inl AttributeError)"

text \<open>The numeric value of a JSON value, a Boolean being an integer.\<close>

definition py_num :: "json \<Rightarrow> pyfloat option" where
  "py_num j =
     (case j of
        JBool b \<Rightarrow> Some (Fin (if b then 1 else 0))
      | JInt i \<Rightarrow> Some (Fin (of_int i))
      | JFloat x \<Rightarrow> Some x
      | _ \<Rightarrow> None)"

text \<open>Equality of floats: a NaN is equal to nothing, itself included.\<close>

definition float_eq :: "pyfloat \<Rightarrow> pyfloat \<Rightarrow> bool" where
  "float_eq x y = (x \<noteq> NaN \<and> y \<noteq> NaN \<and> x = y)"

text \<open>\<^verbatim>\<open>a != b\<close> for a scalar \<open>a\<close>.\<close>

definition py_ne :: "scalar \<Rightarrow> json \<Rightarrow> bool" where
  "py_ne a b =
     (case a of
        SNone \<Rightarrow> b \<noteq> JNull
      | SStr s \<Rightarrow> b \<noteq> JStr s
      | SInt i \<Rightarrow> (case py_num b of None \<Rightarrow> True | Some y \<Rightarrow> \<not> float_eq (Fin (of_int i)) y)
      | SFloat x \<Rightarrow> (case py_num b of None \<Rightarrow> True | Some y \<Rightarrow> \<not> float_eq x y))"

text \<open>The loop over the keys of the new metrics.\<close>

fun metrics_differ :: "(string \<times> scalar) list \<Rightarrow> json \<Rightarrow> exn + bool" where
  "metrics_differ [] existing_metrics = Inr False"
| "metrics_differ ((key, v) # kvs) existing_metrics =
     (case py_get existing_metrics key of
        Inl e \<Rightarrow> Inl e
      | Inr old \<Rightarrow> if py_ne v old then Inr True else metrics_differ kvs existing_metrics)"

text \<open>The loop over the new providers, from index \<open>i\<close> on.\<close>

fun compare_from :: "nat \<Rightarrow> provider list \<Rightarrow> json \<Rightarrow> exn + bool" where
  "compare_from i [] existing_providers = Inr False"
| "compare_from i (new_provider # rest) existing_providers =
     (case py_len existing_providers of
        Inl e \<Rightarrow> Inl e
      | Inr n \<Rightarrow>
          if i \<ge> n then Inr True
          else (case py_index existing_providers i of
                  Inl e \<Rightarrow> Inl e
                | Inr existing \<Rightarrow>
                    (case py_getitem existing ''name'' of
                       Inl e \<Rightarrow> Inl e
                     | Inr existing_name \<Rightarrow>
                         if py_ne (name new_provider) existing_name then Inr True
                         else (case py_getitem existing ''metrics'' of
                                 Inl e \<Rightarrow> Inl e
                               | Inr existing_metrics \<Rightarrow>
                                   (case metrics_differ (metric_items (metrics new_provider)) existing_metrics of
                                      Inl e \<Rightarrow> Inl e
                                    | Inr d \<Rightarrow>
                                        if d then Inr True
                                        else compare_from (Suc i) rest existing_providers)))))"

definition providers_changed :: "json \<Rightarrow> provider list \<Rightarrow> exn + bool" where
  "providers_changed existing_providers new_providers =
     (case py_len existing_providers of
        Inl e \<Rightarrow> Inl e
      | Inr n \<Rightarrow>
          if n \<noteq> length new_providers then Inr True
          else compare_from 0 new_providers existing_providers)"

section \<open>The catalog file\<close>

text \<open>
  What the file \<^verbatim>\<open>models.json\<close> holds: nothing (there is no file), a text that
  \<^verbatim>\<open>json.load\<close> rejects, the text of a JSON value, or the first \<open>n\<close> characters only of the
  text that \<^verbatim>\<open>json.dump\<close> writes for a dictionary, the text being longer.
\<close>

datatype disk = NoFile | Garbled | Doc json | Partial "(string \<times> json) list" nat

text \<open>
  \<^verbatim>\<open>json.load(open("models.json", "r"))\<close>. The text of a dictionary ends with its closing
  brace, so a shorter prefix of it is not a JSON text.
\<close>

definition load :: "disk \<Rightarrow> exn + json" where
  "load d =
     (case d of
        NoFile \<Rightarrow> Inl FileNotFoundError
      | Garbled \<Rightarrow> Inl JSONDecodeError
      | Doc j \<Rightarrow> Inr j
      | Partial kvs n \<Rightarrow> Inl JSONDecodeError)"

text \<open>
  How a write goes: the file cannot be opened for writing, the write fails after \<open>n\<close>
  characters of the text have reached the file, or it succeeds.
\<close>

datatype write_outcome = OpenFails | WriteFails nat | WriteOk

text \<open>
  \<^verbatim>\<open>with open("models.json", "w") as f: json.dump(models_data, f, indent=2)\<close>. Opening the
  file for writing empties it; what follows is written into the file itself. The result
  is the file and the exception, if any.
\<close>

definition commit :: "disk \<Rightarrow> (string \<times> json) list \<Rightarrow> write_outcome \<Rightarrow> disk \<times> exn option" where
  "commit d models_data w =
     (case w of
        OpenFails \<Rightarrow> (d, Some OSError)
      | WriteFails n \<Rightarrow> (Partial models_data n, Some OSError)
      | WriteOk \<Rightarrow> (Doc (JObj models_data), None))"

section \<open>The update driver\<close>

text \<open>The lines that the driver prints; the model identifier is any JSON value.\<close>

datatype event =
    Processing json
  | Saved json
  | ErrorSaving json exn
  | NoChanges json
  | ErrorProcessing json exn
  | ErrorUpdating exn

text \<open>
  The state of a run: the dictionary \<^verbatim>\<open>models_data\<close> as loaded, the list
  \<^verbatim>\<open>models_data["data"]\<close> as it is now, the file and the lines printed so far.
\<close>

record state =
  top :: "(string \<times> json) list"
  entries :: "json list"
  catalog_file :: disk
  out :: "event list"

text \<open>The dictionary \<^verbatim>\<open>models_data\<close> as it is now.\<close>

definition models_data :: "state \<Rightarrow> (string \<times> json) list" where
  "models_data st = AList.update ''data'' (JArr (entries st)) (top st)"

definition say :: "event \<Rightarrow> state \<Rightarrow> state" where
  "say ev st = st\<lparr>out := out st @ [ev]\<rparr>"

text \<open>
  The body of the loop for the model at index \<open>i\<close>, with the page that the browser shows
  for it and the outcome of the write, should there be one. \<open>Inl\<close> is the exception that
  leaves the loop: \<^verbatim>\<open>model["id"]\<close> is read outside the inner \<^verbatim>\<open>try\<close>.
\<close>

definition process_model ::
  "(rat \<Rightarrow> pyfloat) \<Rightarrow> page \<Rightarrow> write_outcome \<Rightarrow> nat \<Rightarrow> state \<Rightarrow> exn + state" where
  "process_model rnd pg w i st =
     (case entries st ! i of
        JObj model \<Rightarrow>
          (case map_of model ''id'' of
             None \<Rightarrow> Inl KeyError
           | Some model_id \<Rightarrow>
               (let st1 = say (Processing model_id) st in
                case scrape_providers rnd pg of
                  Inl e \<Rightarrow> Inr (say (ErrorProcessing model_id e) st1)
                | Inr new_providers \<Rightarrow>
                    (let existing_providers =
                           (case map_of model ''providers'' of None \<Rightarrow> JArr [] | Some ps \<Rightarrow> ps)
                     in case providers_changed existing_providers new_providers of
                          Inl e \<Rightarrow> Inr (say (ErrorProcessing model_id e) st1)
                        | Inr changed \<Rightarrow>
                            if changed then
                              (let st2 = st1\<lparr>entries := (entries st1)
                                            [i := JObj (AList.update ''providers'' (snapshot_json new_providers) model)]\<rparr>
                               in case commit (catalog_file st2) (models_data st2) w of
                                    (d, None) \<Rightarrow> Inr (say (Saved model_id) (st2\<lparr>catalog_file := d\<rparr>))
                                  | (d, Some save_error) \<Rightarrow>
                                      Inr (say (ErrorSaving model_id save_error) (st2\<lparr>catalog_file := d\<rparr>)))
                            else Inr (say (NoChanges model_id) st1))))
      | _ \<Rightarrow> Inl TypeError)"

text \<open>
  The loop over the models at the indices given. The result is the final state and the
  exit status: an exception that leaves the loop is printed and the process exits with 1.
\<close>

fun process_models ::
  "(rat \<Rightarrow> pyfloat) \<Rightarrow> (nat \<Rightarrow> page) \<Rightarrow> (nat \<Rightarrow> write_outcome) \<Rightarrow> nat list \<Rightarrow> state \<Rightarrow> state \<times> nat" where
  "process_models rnd web wr [] st = (st, 0)"
| "process_models rnd web wr (i # rest) st =
     (case process_model rnd (web i) (wr i) i st of
        Inl e \<Rightarrow> (say (ErrorUpdating e) st, 1)
      | Inr st' \<Rightarrow> process_models rnd web wr rest st')"

text \<open>
  \<^verbatim>\<open>update_models_with_providers()\<close>, for the file as it is at the start, the page that the
  browser shows for the model at each index and the outcome of the write for the model at
  each index. When the catalog cannot be loaded the state has nothing in memory. Iterating
  a dictionary gives its keys and iterating a string gives its characters, for which
  \<^verbatim>\<open>model["id"]\<close> raises a \<^verbatim>\<open>TypeError\<close>.
\<close>

definition fatal :: "disk \<Rightarrow> (string \<times> json) list \<Rightarrow> exn \<Rightarrow> state \<times> nat" where
  "fatal d t e = (\<lparr>top = t, entries = [], catalog_file = d, out = [ErrorUpdating e]\<rparr>, 1)"

definition update_models_with_providers ::
  "(rat \<Rightarrow> pyfloat) \<Rightarrow> (nat \<Rightarrow> page) \<Rightarrow> (nat \<Rightarrow> write_outcome) \<Rightarrow> disk \<Rightarrow> state \<times> nat" where
  "update_models_with_providers rnd web wr d =
     (case load d of
        Inl e \<Rightarrow> fatal d [] e
      | Inr (JObj t) \<Rightarrow>
          (case map_of t ''data'' of
             None \<Rightarrow> fatal d t KeyError
           | Some (JArr xs) \<Rightarrow>
               process_models rnd web wr [0..<length xs] \<lparr>top = t, entries = xs, catalog_file = d, out = []\<rparr>
           | Some (JObj kvs) \<Rightarrow>
               if kvs = [] then (\<lparr>top = t, entries = [], catalog_file = d, out = []\<rparr>, 0) else fatal d t TypeError
           | Some (JStr s) \<Rightarrow>
               if s = [] then (\<lparr>top = t, entries = [], catalog_file = d, out = []\<rparr>, 0) else fatal d t TypeError
           | Some _ \<Rightarrow> fatal d t TypeError)
      | Inr _ \<Rightarrow> fatal d [] TypeError)"

section \<open>The specification's reading of the unit suffixes\<close>

text \<open>
  The specification words the latency and throughput kinds as stripping a trailing unit
  suffix. The two definitions below follow these words, for comparison with
  \<open>clean_and_convert_values\<close>.
\<close>

definition strip_suffix :: "string \<Rightarrow> string \<Rightarrow> string" where
  "strip_suffix suf s =
     (if length suf \<le> length s \<and> drop (length s - length suf) s = suf
      then take (length s - length suf) s else s)"

definition normalize_trailing :: "(rat \<Rightarrow> pyfloat) \<Rightarrow> string \<Rightarrow> string \<Rightarrow> scalar" where
  "normalize_trailing rnd suf v = float_or_none (py_float rnd (strip_suffix suf (strip v)))"

section \<open>Snapshots as the builder types them\<close>

text \<open>
  The snapshot builder gives a name that is a string or absent, a context length and a
  maximum of output tokens that are integers or absent, and prices, a latency and a
  throughput that are floats or absent.
\<close>

definition int_or_absent :: "scalar \<Rightarrow> bool" where
  "int_or_absent s = (case s of SNone \<Rightarrow> True | SInt i \<Rightarrow> True | _ \<Rightarrow> False)"

definition float_or_absent :: "scalar \<Rightarrow> bool" where
  "float_or_absent s = (case s of SNone \<Rightarrow> True | SFloat x \<Rightarrow> True | _ \<Rightarrow> False)"

definition str_or_absent :: "scalar \<Rightarrow> bool" where
  "str_or_absent s = (case s of SNone \<Rightarrow> True | SStr t \<Rightarrow> True | _ \<Rightarrow> False)"

definition well_typed :: "provider \<Rightarrow> bool" where
  "well_typed p =
     (str_or_absent (name p)
      \<and> int_or_absent (context_length (metrics p))
      \<and> int_or_absent (max_output_tokens (metrics p))
      \<and> float_or_absent (input_price_per_million (metrics p))
      \<and> float_or_absent (output_price_per_million (metrics p))
      \<and> float_or_absent (latency_seconds (metrics p))
      \<and> float_or_absent (throughput_tokens_per_second (metrics p)))"

text \<open>
  The comparisons that the change detector makes between a new record and an existing
  one: the names, then the metrics key by key.
\<close>

definition differs :: "provider \<Rightarrow> provider \<Rightarrow> bool" where
  "differs p q =
     (py_ne (name p) (scalar_json (name q))
      \<or> list_ex (\<lambda>(a, b). py_ne (snd a) (scalar_json (snd b)))
           (zip (metric_items (metrics p)) (metric_items (metrics q))))"

text \<open>A record none of whose values is a NaN.\<close>

definition no_nan :: "provider \<Rightarrow> bool" where
  "no_nan p = (name p \<noteq> SFloat NaN \<and> list_all (\<lambda>kv. snd kv \<noteq> SFloat NaN) (metric_items (metrics p)))"

section \<open>Skipped rows\<close>

text \<open>
  A row that the snapshot builder skips: its name element is missing, or reading its name
  or its metrics raises an exception, or it has fewer than six metrics.
\<close>

definition row_skipped :: "row \<Rightarrow> bool" where
  "row_skipped r =
     (\<not> name_el r \<or> isl (name_text r)
      \<or> (case metric_els r of Inl e \<Rightarrow> True | Inr ms \<Rightarrow> length ms < 6 \<or> isl (inner_texts ms)))"

section \<open>Notions for the properties of the driver\<close>

text \<open>The same page, or the same outcome of the write, for the model at every index.\<close>

definition always :: "'a \<Rightarrow> nat \<Rightarrow> 'a" where
  "always x i = x"

text \<open>An element of \<^verbatim>\<open>models_data["data"]\<close> for which \<^verbatim>\<open>model["id"]\<close> raises nothing.\<close>

definition has_id :: "json \<Rightarrow> bool" where
  "has_id j = (case j of JObj model \<Rightarrow> map_of model ''id'' \<noteq> None | _ \<Rightarrow> False)"

text \<open>Its identifier.\<close>

definition the_id :: "json \<Rightarrow> json" where
  "the_id j = (case j of JObj model \<Rightarrow> (case map_of model ''id'' of Some v \<Rightarrow> v | None \<Rightarrow> JNull) | _ \<Rightarrow> JNull)"

text \<open>
  A catalog file that loads and that the loop can go through: a dictionary whose \<open>data\<close>
  is a list of dictionaries with an \<open>id\<close> each, or is an empty dictionary or string.
\<close>

definition usable :: "disk \<Rightarrow> bool" where
  "usable d =
     (case load d of
        Inr (JObj t) \<Rightarrow>
          (case map_of t ''data'' of
             Some (JArr xs) \<Rightarrow> list_all has_id xs
           | Some (JObj kvs) \<Rightarrow> kvs = []
           | Some (JStr s) \<Rightarrow> s = []
           | _ \<Rightarrow> False)
      | _ \<Rightarrow> False)"

text \<open>
  The two lines printed for a model, from its entry as loaded: that it is being processed,
  then how it went.
\<close>

definition model_events :: "(rat \<Rightarrow> pyfloat) \<Rightarrow> page \<Rightarrow> write_outcome \<Rightarrow> json \<Rightarrow> event list" where
  "model_events rnd pg w entry =
     [Processing (the_id entry),
      (case scrape_providers rnd pg of
         Inl e \<Rightarrow> ErrorProcessing (the_id entry) e
       | Inr new_providers \<Rightarrow>
           (case providers_changed
                   (case entry of
                      JObj model \<Rightarrow> (case map_of model ''providers'' of None \<Rightarrow> JArr [] | Some ps \<Rightarrow> ps)
                    | _ \<Rightarrow> JArr [])
                   new_providers of
              Inl e \<Rightarrow> ErrorProcessing (the_id entry) e
            | Inr changed \<Rightarrow>
                if changed then (if w = WriteOk then Saved (the_id entry) else ErrorSaving (the_id entry) OSError)
                else NoChanges (the_id entry)))]"

text \<open>An entry without its providers: every other key with its value, in their order.\<close>

definition entry_frame :: "json \<Rightarrow> json" where
  "entry_frame j = (case j of JObj model \<Rightarrow> JObj (AList.delete ''providers'' model) | _ \<Rightarrow> j)"

text \<open>A catalog with every entry of its \<open>data\<close> without its providers.\<close>

definition catalog_frame :: "(string \<times> json) list \<Rightarrow> (string \<times> json) list" where
  "catalog_frame m =
     map (\<lambda>kv. if fst kv = ''data''
                then (fst kv, (case snd kv of JArr xs \<Rightarrow> JArr (map entry_frame xs) | v \<Rightarrow> v))
                else kv) m"

text \<open>The dictionary whose text, whole or in part, a file holds.\<close>

definition written :: "disk \<Rightarrow> (string \<times> json) list option" where
  "written d = (case d of Doc (JObj m) \<Rightarrow> Some m | Partial m n \<Rightarrow> Some m | _ \<Rightarrow> None)"

section \<open>Properties of the normalizer\<close>

text \<open>The definitions that evaluate the parsers on a given text.\<close>

lemmas parser_defs =
  strip_def is_space_def skip_blanks_def is_blank_def is_digit_def digit_val_def digits_nat_def split_sign_def
  lower_def lower_char_def mantissa_def exponent_def is_e_def scale10_def
  py_int_def py_float_def float_or_none_def int_or_none_def Let_def

lemma replace_char: "replace [c] [] s = filter (\<lambda>x. x \<noteq> c) s"
proof (induction s)
  case Nil
  show ?case by (subst replace.simps) simp
next
  case (Cons a s)
  show ?case by (subst replace.simps) (simp add: Cons)
qed

lemma replace_first:
  "old \<noteq> [] \<Longrightarrow> hd old \<notin> set pre \<Longrightarrow>
   replace old new (pre @ old @ post) = pre @ new @ replace old new post"
proof (induction pre)
  case Nil
  then show ?case by (subst replace.simps) simp
next
  case (Cons a pre)
  from Cons.prems have ne: "take (length old) ((a # pre) @ old @ post) \<noteq> old"
    by (cases old) auto
  show ?case using Cons ne by (subst replace.simps) simp
qed

text \<open>
  C8. The normalizer on the listed inputs: \<open>1,234K\<close> as an integer is 1234000, \<open>$0.50\<close>
  as a decimal is the float 0.50, \<open>2.3s\<close> as a latency is the float 2.3, \<open>45.1t/s\<close> as a
  throughput is the float 45.1, an absent value is absent for every kind, and \<open>abc\<close> as an
  integer is absent, no exception being raised. The float that a literal such as 2.3
  stands for is the rounding of 23/10.
\<close>

theorem normalizer_examples:
  "clean_and_convert_values rnd (Some ''1,234K'') ''int'' = SInt 1234000
   \<and> clean_and_convert_values rnd (Some ''$0.50'') ''float'' = SFloat (rnd (50 / 100))
   \<and> clean_and_convert_values rnd (Some ''2.3s'') ''latency'' = SFloat (rnd (23 / 10))
   \<and> clean_and_convert_values rnd (Some ''45.1t/s'') ''throughput'' = SFloat (rnd (451 / 10))
   \<and> clean_and_convert_values rnd None data_type = SNone
   \<and> clean_and_convert_values rnd (Some ''abc'') ''int'' = SNone"
  by (simp add: clean_and_convert_values_def replace.simps parser_defs)

text \<open>
  C9, as stated, fails: the normalizer removes the unit text wherever it stands, not only
  at the end. The text \<open>1s2s\<close> is not a number once its trailing \<open>s\<close> is removed, and the
  specification's reading makes it absent; the normalizer makes it 12. Likewise for
  \<open>4t/s5t/s\<close> as a throughput.
\<close>

theorem trailing_suffix_counterexample:
  "clean_and_convert_values Fin (Some ''1s2s'') ''latency'' = SFloat (Fin 12)
   \<and> normalize_trailing Fin ''s'' ''1s2s'' = SNone
   \<and> clean_and_convert_values Fin (Some ''4t/s5t/s'') ''throughput'' = SFloat (Fin 45)
   \<and> normalize_trailing Fin ''t/s'' ''4t/s5t/s'' = SNone"
  by (simp add: clean_and_convert_values_def normalize_trailing_def strip_suffix_def
      replace.simps parser_defs)

text \<open>
  C9, amended. Normalizing with kind latency removes every letter \<open>s\<close> of the trimmed
  string, wherever it stands, and parses what is left as a float, absent on a parse
  failure. Normalizing with kind throughput removes the occurrences of \<open>t/s\<close> that
  \<^verbatim>\<open>str.replace\<close> finds in the trimmed string, wherever they stand: when the string has
  its first \<open>t\<close> at the start of an occurrence, what is parsed is the text before it
  followed by the rest without its occurrences.
\<close>

theorem units_removed_everywhere:
  "clean_and_convert_values rnd (Some v) ''latency''
     = float_or_none (py_float rnd (filter (\<lambda>c. c \<noteq> CHR ''s'') (strip v)))
   \<and> clean_and_convert_values rnd (Some v) ''throughput''
       = float_or_none (py_float rnd (replace ''t/s'' [] (strip v)))
   \<and> (strip v = pre @ ''t/s'' @ post \<and> CHR ''t'' \<notin> set pre \<longrightarrow>
        clean_and_convert_values rnd (Some v) ''throughput''
          = float_or_none (py_float rnd (pre @ replace ''t/s'' [] post)))"
proof -
  have latency: "clean_and_convert_values rnd (Some v) ''latency''
      = float_or_none (py_float rnd (filter (\<lambda>c. c \<noteq> CHR ''s'') (strip v)))"
    by (simp add: clean_and_convert_values_def replace_char)
  have throughput: "clean_and_convert_values rnd (Some v) ''throughput''
      = float_or_none (py_float rnd (pre @ replace ''t/s'' [] post))"
    if "strip v = pre @ ''t/s'' @ post" and "CHR ''t'' \<notin> set pre"
  proof -
    have "replace ''t/s'' [] (pre @ ''t/s'' @ post) = pre @ [] @ replace ''t/s'' [] post"
      using that(2) by (intro replace_first) simp_all
    then show ?thesis
      using that(1) by (simp add: clean_and_convert_values_def)
  qed
  have everywhere: "clean_and_convert_values rnd (Some v) ''throughput''
      = float_or_none (py_float rnd (replace ''t/s'' [] (strip v)))"
    by (simp add: clean_and_convert_values_def)
  show ?thesis using latency everywhere throughput by blast
qed

theorem units_removed_everywhere_witness:
  "strip ''4t/s5t/s'' = ''4'' @ ''t/s'' @ ''5t/s'' \<and> CHR ''t'' \<notin> set ''4''
   \<and> clean_and_convert_values Fin (Some ''4t/s5t/s'') ''throughput''
       = float_or_none (py_float Fin (''4'' @ replace ''t/s'' [] ''5t/s''))
   \<and> clean_and_convert_values Fin (Some ''4t/s5t/s'') ''throughput'' = SFloat (Fin 45)"
  using units_removed_everywhere [of Fin "''4t/s5t/s''" "''4''" "''5t/s''"]
  by (simp add: clean_and_convert_values_def replace.simps parser_defs)

section \<open>Properties of the snapshot builder\<close>

text \<open>The rows for which the body of the loop appends nothing are the skipped rows.\<close>

lemma process_row_none: "(process_row rnd r = None) = row_skipped r"
  by (auto simp: process_row_def row_skipped_def split: sum.splits)

text \<open>
  C10. When the page has at least one provider row and every row is skipped, the snapshot
  builder returns the empty list, which is not the one-element list of the sentinel
  record.
\<close>

theorem all_rows_skipped_empty:
  "rows \<noteq> [] \<Longrightarrow> list_all row_skipped rows \<Longrightarrow>
     scrape_providers rnd (ProviderRows rows) = Inr [] \<and> [] \<noteq> [sentinel]"
  by (induction rows)
     (auto simp: scrape_providers_def List.map_filter_def list_all_iff process_row_none)

theorem all_rows_skipped_empty_witness:
  "[\<lparr>name_el = False, name_text = Inr ''a'', metric_els = Inr []\<rparr>,
    \<lparr>name_el = True, name_text = Inr ''b'', metric_els = Inr [Inr ''1K'']\<rparr>,
    \<lparr>name_el = True, name_text = Inl PlaywrightError, metric_els = Inr []\<rparr>] \<noteq> []
   \<and> list_all row_skipped
       [\<lparr>name_el = False, name_text = Inr ''a'', metric_els = Inr []\<rparr>,
        \<lparr>name_el = True, name_text = Inr ''b'', metric_els = Inr [Inr ''1K'']\<rparr>,
        \<lparr>name_el = True, name_text = Inl PlaywrightError, metric_els = Inr []\<rparr>]
   \<and> scrape_providers Fin (ProviderRows
       [\<lparr>name_el = False, name_text = Inr ''a'', metric_els = Inr []\<rparr>,
        \<lparr>name_el = True, name_text = Inr ''b'', metric_els = Inr [Inr ''1K'']\<rparr>,
        \<lparr>name_el = True, name_text = Inl PlaywrightError, metric_els = Inr []\<rparr>]) = Inr []"
  using all_rows_skipped_empty [of
    "[\<lparr>name_el = False, name_text = Inr ''a'', metric_els = Inr []\<rparr>,
      \<lparr>name_el = True, name_text = Inr ''b'', metric_els = Inr [Inr ''1K'']\<rparr>,
      \<lparr>name_el = True, name_text = Inl PlaywrightError, metric_els = Inr []\<rparr>]" Fin]
  by (simp add: row_skipped_def)

section \<open>Properties of the change detector\<close>

text \<open>
  C6. When the existing snapshot and the new snapshot differ in length, the change
  detector returns true; so it does for an empty existing snapshot against the
  one-element snapshot of the sentinel record.
\<close>

theorem differing_lengths_changed:
  "(length existing \<noteq> length new_providers \<longrightarrow>
      providers_changed (JArr existing) new_providers = Inr True)
   \<and> providers_changed (JArr []) [sentinel] = Inr True"
  by (simp add: providers_changed_def py_len_def)

theorem differing_lengths_changed_witness:
  "length [provider_json sentinel, provider_json sentinel] \<noteq> length [sentinel]
   \<and> providers_changed (JArr [provider_json sentinel, provider_json sentinel]) [sentinel] = Inr True"
  using differing_lengths_changed [of "[provider_json sentinel, provider_json sentinel]" "[sentinel]"]
  by simp

text \<open>What the snapshot builder returns is typed as said above.\<close>

lemma typed_int: "int_or_absent (clean_and_convert_values rnd v ''int'')"
  by (simp add: clean_and_convert_values_def int_or_absent_def int_or_none_def Let_def
      split: option.splits)

lemma typed_float:
  "k = ''float'' \<or> k = ''latency'' \<or> k = ''throughput'' \<Longrightarrow>
   float_or_absent (clean_and_convert_values rnd v k)"
  by (auto simp: clean_and_convert_values_def float_or_absent_def float_or_none_def Let_def
      split: option.splits)

lemma process_row_typed: "process_row rnd r = Some p \<Longrightarrow> well_typed p"
  by (auto simp: process_row_def well_typed_def str_or_absent_def typed_int typed_float
      split: if_splits sum.splits)

lemma sentinel_typed: "well_typed sentinel"
  by (simp add: well_typed_def sentinel_def str_or_absent_def int_or_absent_def float_or_absent_def)

lemma scrape_providers_typed:
  "scrape_providers rnd pg = Inr ps \<Longrightarrow> list_all well_typed ps"
  by (auto simp: scrape_providers_def sentinel_typed List.map_filter_def list_all_iff
      process_row_typed split: page.splits if_splits)

text \<open>
  Against an existing snapshot that has the shape of a snapshot, and of the same length,
  the change detector raises no exception and returns whether some record differs at its
  position.
\<close>

lemma py_ne_same_kind:
  "(int_or_absent a \<and> int_or_absent b) \<or> (float_or_absent a \<and> float_or_absent b)
     \<or> (str_or_absent a \<and> str_or_absent b) \<Longrightarrow>
   \<not> py_ne a (scalar_json b) \<Longrightarrow> a = b"
  by (cases a; cases b)
     (auto simp: py_ne_def py_num_def float_eq_def int_or_absent_def float_or_absent_def
       str_or_absent_def)

lemma py_ne_refl: "py_ne a (scalar_json a) = (a = SFloat NaN)"
  by (cases a) (auto simp: py_ne_def py_num_def float_eq_def)

lemma metrics_differ_json:
  "metrics_differ (metric_items m) (JObj (map (\<lambda>kv. (fst kv, scalar_json (snd kv))) (metric_items m')))
     = Inr (list_ex (\<lambda>(a, b). py_ne (snd a) (scalar_json (snd b))) (zip (metric_items m) (metric_items m')))"
  by (simp add: metric_items_def py_get_def)

lemma compare_from_json:
  "length ex = i + length new \<Longrightarrow>
   compare_from i new (snapshot_json ex)
     = Inr (\<not> list_all2 (\<lambda>p q. \<not> differs p q) new (drop i ex))"
proof (induction new arbitrary: i)
  case Nil
  then show ?case by simp
next
  case (Cons p rest)
  then have lt: "i < length ex" and len: "length ex = Suc i + length rest" by simp_all
  have dr: "drop i ex = ex ! i # drop (Suc i) ex"
    using lt by (simp add: Cons_nth_drop_Suc)
  have ix: "py_index (snapshot_json ex) i = Inr (provider_json (ex ! i))"
    using lt by (simp add: py_index_def snapshot_json_def)
  have ln: "py_len (snapshot_json ex) = Inr (length ex)"
    by (simp add: py_len_def snapshot_json_def)
  have nm: "py_getitem (provider_json (ex ! i)) ''name'' = Inr (scalar_json (name (ex ! i)))"
    by (simp add: py_getitem_def provider_json_def)
  have ms: "py_getitem (provider_json (ex ! i)) ''metrics''
      = Inr (JObj (map (\<lambda>kv. (fst kv, scalar_json (snd kv))) (metric_items (metrics (ex ! i)))))"
    by (simp add: py_getitem_def provider_json_def)
  show ?case
    using lt by (simp add: ix ln nm ms metrics_differ_json Cons.IH [OF len] dr differs_def)
qed

lemma providers_changed_json:
  "length ex = length new \<Longrightarrow>
   providers_changed (snapshot_json ex) new = Inr (\<not> list_all2 (\<lambda>p q. \<not> differs p q) new ex)"
  using compare_from_json [of ex 0 new]
  by (simp add: providers_changed_def py_len_def snapshot_json_def)

lemma same_typed_equal:
  assumes "well_typed p" "well_typed q" "\<not> differs p q"
  shows "p = q"
proof -
  have n: "name p = name q"
    using assms by (auto simp: differs_def well_typed_def intro: py_ne_same_kind)
  have m: "metrics p = metrics q"
    using assms
    by (intro metric_set.equality)
       (auto simp: differs_def well_typed_def metric_items_def intro: py_ne_same_kind)
  show ?thesis using n m by (intro provider.equality) simp_all
qed

lemma unchanged_typed_equal:
  "list_all well_typed new \<Longrightarrow> list_all well_typed ex \<Longrightarrow>
   list_all2 (\<lambda>p q. \<not> differs p q) new ex \<Longrightarrow> new = ex"
proof (induction new arbitrary: ex)
  case Nil
  then show ?case by simp
next
  case (Cons p new)
  then show ?case by (cases ex) (auto dest: same_typed_equal)
qed

lemma differs_refl: "no_nan p \<Longrightarrow> \<not> differs p p"
  by (auto simp: differs_def no_nan_def py_ne_refl metric_items_def)

lemma providers_changed_refl:
  "list_all no_nan S \<Longrightarrow> providers_changed (snapshot_json S) S = Inr False"
proof -
  assume "list_all no_nan S"
  then have "list_all2 (\<lambda>p q. \<not> differs p q) S S"
    by (induction S) (simp_all add: differs_refl)
  then show ?thesis by (simp add: providers_changed_json)
qed

text \<open>
  C5. The change detector applied to a snapshot against itself returns false. This holds
  for every snapshot without a NaN (\<open>providers_changed_refl\<close>) and fails with one: in
  Python a NaN is different from itself. Such a snapshot is what the snapshot builder
  returns for a row whose latency reads \<open>NaN\<close>, and the change detector reports it as
  changed against itself.
\<close>

theorem nan_snapshot_changed_against_itself:
  "scrape_providers Fin (ProviderRows
      [\<lparr>name_el = True, name_text = Inr ''Acme'',
        metric_els = Inr [Inr ''128K'', Inr ''4,096'', Inr ''$2.50'', Inr ''$10'', Inr ''NaN'', Inr ''45.5t/s'']\<rparr>])
     = Inr [\<lparr>name = SStr ''acme'',
             metrics = \<lparr>context_length = SInt 128000, max_output_tokens = SInt 4096,
                        input_price_per_million = SFloat (Fin (5 / 2)),
                        output_price_per_million = SFloat (Fin 10),
                        latency_seconds = SFloat NaN,
                        throughput_tokens_per_second = SFloat (Fin (91 / 2))\<rparr>\<rparr>]
   \<and> providers_changed
        (snapshot_json
          [\<lparr>name = SStr ''acme'',
            metrics = \<lparr>context_length = SInt 128000, max_output_tokens = SInt 4096,
                       input_price_per_million = SFloat (Fin (5 / 2)),
                       output_price_per_million = SFloat (Fin 10),
                       latency_seconds = SFloat NaN,
                       throughput_tokens_per_second = SFloat (Fin (91 / 2))\<rparr>\<rparr>])
        [\<lparr>name = SStr ''acme'',
          metrics = \<lparr>context_length = SInt 128000, max_output_tokens = SInt 4096,
                     input_price_per_million = SFloat (Fin (5 / 2)),
                     output_price_per_million = SFloat (Fin 10),
                     latency_seconds = SFloat NaN,
                     throughput_tokens_per_second = SFloat (Fin (91 / 2))\<rparr>\<rparr>]
     = Inr True"
proof -
  have built: "process_row Fin
      \<lparr>name_el = True, name_text = Inr ''Acme'',
        metric_els = Inr [Inr ''128K'', Inr ''4,096'', Inr ''$2.50'', Inr ''$10'', Inr ''NaN'', Inr ''45.5t/s'']\<rparr>
     = Some \<lparr>name = SStr ''acme'',
             metrics = \<lparr>context_length = SInt 128000, max_output_tokens = SInt 4096,
                        input_price_per_million = SFloat (Fin (5 / 2)),
                        output_price_per_million = SFloat (Fin 10),
                        latency_seconds = SFloat NaN,
                        throughput_tokens_per_second = SFloat (Fin (91 / 2))\<rparr>\<rparr>"
    by (simp add: process_row_def clean_and_convert_values_def replace.simps parser_defs)
  have scraped: "scrape_providers Fin (ProviderRows
      [\<lparr>name_el = True, name_text = Inr ''Acme'',
        metric_els = Inr [Inr ''128K'', Inr ''4,096'', Inr ''$2.50'', Inr ''$10'', Inr ''NaN'', Inr ''45.5t/s'']\<rparr>])
     = Inr [\<lparr>name = SStr ''acme'',
             metrics = \<lparr>context_length = SInt 128000, max_output_tokens = SInt 4096,
                        input_price_per_million = SFloat (Fin (5 / 2)),
                        output_price_per_million = SFloat (Fin 10),
                        latency_seconds = SFloat NaN,
                        throughput_tokens_per_second = SFloat (Fin (91 / 2))\<rparr>\<rparr>]"
    by (simp add: scrape_providers_def List.map_filter_def built)
  have changed: "providers_changed
        (snapshot_json
          [\<lparr>name = SStr ''acme'',
            metrics = \<lparr>context_length = SInt 128000, max_output_tokens = SInt 4096,
                       input_price_per_million = SFloat (Fin (5 / 2)),
                       output_price_per_million = SFloat (Fin 10),
                       latency_seconds = SFloat NaN,
                       throughput_tokens_per_second = SFloat (Fin (91 / 2))\<rparr>\<rparr>])
        [\<lparr>name = SStr ''acme'',
          metrics = \<lparr>context_length = SInt 128000, max_output_tokens = SInt 4096,
                     input_price_per_million = SFloat (Fin (5 / 2)),
                     output_price_per_million = SFloat (Fin 10),
                     latency_seconds = SFloat NaN,
                     throughput_tokens_per_second = SFloat (Fin (91 / 2))\<rparr>\<rparr>]
     = Inr True"
    by (simp add: providers_changed_json differs_def metric_items_def py_ne_def py_num_def
        float_eq_def)
  show ?thesis using scraped changed by (rule conjI)
qed

text \<open>
  C7. Two snapshots with the same records, as a multiset, in a different order are
  reported as changed: the comparison is by position.
\<close>

theorem reordering_changed:
  assumes "list_all well_typed S1" and "list_all well_typed S2"
    and "mset S1 = mset S2" and "S1 \<noteq> S2"
  shows "providers_changed (snapshot_json S1) S2 = Inr True"
proof -
  have len: "length S1 = length S2"
    using assms(3) by (metis size_mset)
  have "\<not> list_all2 (\<lambda>p q. \<not> differs p q) S2 S1"
    using unchanged_typed_equal [OF assms(2) assms(1)] assms(4) by auto
  then show ?thesis
    by (simp add: providers_changed_json [OF len])
qed

theorem reordering_changed_witness:
  "list_all well_typed [sentinel, sentinel\<lparr>name := SStr ''acme''\<rparr>]
   \<and> list_all well_typed [sentinel\<lparr>name := SStr ''acme''\<rparr>, sentinel]
   \<and> mset [sentinel, sentinel\<lparr>name := SStr ''acme''\<rparr>] = mset [sentinel\<lparr>name := SStr ''acme''\<rparr>, sentinel]
   \<and> [sentinel, sentinel\<lparr>name := SStr ''acme''\<rparr>] \<noteq> [sentinel\<lparr>name := SStr ''acme''\<rparr>, sentinel]
   \<and> providers_changed (snapshot_json [sentinel, sentinel\<lparr>name := SStr ''acme''\<rparr>])
        [sentinel\<lparr>name := SStr ''acme''\<rparr>, sentinel] = Inr True"
proof -
  have typed: "list_all well_typed [sentinel, sentinel\<lparr>name := SStr ''acme''\<rparr>]"
    "list_all well_typed [sentinel\<lparr>name := SStr ''acme''\<rparr>, sentinel]"
    by (simp_all add: well_typed_def sentinel_def str_or_absent_def int_or_absent_def
        float_or_absent_def)
  have same: "mset [sentinel, sentinel\<lparr>name := SStr ''acme''\<rparr>]
      = mset [sentinel\<lparr>name := SStr ''acme''\<rparr>, sentinel]"
    by (simp add: add.commute)
  have other: "[sentinel, sentinel\<lparr>name := SStr ''acme''\<rparr>]
      \<noteq> [sentinel\<lparr>name := SStr ''acme''\<rparr>, sentinel]"
    by (simp add: sentinel_def)
  show ?thesis
    using typed same other reordering_changed [OF typed same other] by simp
qed

section \<open>Properties of the update driver\<close>

lemma process_model_fails:
  "(\<exists>e. process_model rnd pg w i st = Inl e) = (\<not> has_id (entries st ! i))"
  by (auto simp: process_model_def has_id_def Let_def commit_def
      split: json.splits option.splits sum.splits write_outcome.splits)

lemma process_model_step:
  assumes "process_model rnd pg w i st = Inr st'"
  shows "top st' = top st"
    and "length (entries st') = length (entries st)"
    and "j \<noteq> i \<Longrightarrow> entries st' ! j = entries st ! j"
    and "out st' = out st @ model_events rnd pg w (entries st ! i)"
    and "map entry_frame (entries st') = map entry_frame (entries st)"
    and "catalog_file st' = catalog_file st \<or> written (catalog_file st') = Some (models_data st')"
proof -
  obtain model mid where m: "entries st ! i = JObj model" "map_of model ''id'' = Some mid"
    using assms by (auto simp: process_model_def split: json.splits option.splits)
  have fr: "map entry_frame ((entries st)[i := JObj (AList.update ''providers'' p model)])
      = map entry_frame (entries st)" for p
  proof (cases "i < length (entries st)")
    case True
    have "entry_frame (JObj (AList.update ''providers'' p model)) = entry_frame (entries st ! i)"
      by (simp add: entry_frame_def m delete_update_same)
    then show ?thesis using True by (simp add: map_update list_update_same_conv)
  next
    case False
    then have "length (entries st) \<le> i" by simp
    then show ?thesis by (simp only: list_update_beyond)
  qed
  show "top st' = top st" "length (entries st') = length (entries st)"
    "j \<noteq> i \<Longrightarrow> entries st' ! j = entries st ! j"
    using assms m
    by (auto simp: process_model_def Let_def say_def commit_def
        split: sum.splits if_splits write_outcome.splits)
  show "out st' = out st @ model_events rnd pg w (entries st ! i)"
    using assms m
    by (auto simp: process_model_def Let_def say_def commit_def model_events_def the_id_def
        split: sum.splits if_splits write_outcome.splits)
  show "map entry_frame (entries st') = map entry_frame (entries st)"
    using assms m fr
    by (auto simp: process_model_def Let_def say_def commit_def
        split: sum.splits if_splits write_outcome.splits)
  show "catalog_file st' = catalog_file st \<or> written (catalog_file st') = Some (models_data st')"
    using assms m
    by (auto simp: process_model_def Let_def say_def commit_def written_def models_data_def
        split: sum.splits if_splits write_outcome.splits)
qed


lemma process_model_total:
  "has_id (entries st ! i) \<Longrightarrow> \<exists>st'. process_model rnd pg w i st = Inr st'"
  using process_model_fails [of rnd pg w i st] by (cases "process_model rnd pg w i st") auto

lemma process_models_append:
  "process_models rnd web wr (is @ js) st =
     (case process_models rnd web wr is st of
        (st', c) \<Rightarrow> if c = 0 then process_models rnd web wr js st' else (st', c))"
  by (induction "is" arbitrary: st) (auto split: sum.splits)

lemma process_models_frame:
  assumes "process_models rnd web wr is st = (fin, c)"
  shows "top fin = top st \<and> length (entries fin) = length (entries st)
    \<and> (\<forall>j. j \<notin> set is \<longrightarrow> entries fin ! j = entries st ! j)
    \<and> (\<exists>evs. out fin = out st @ evs)
    \<and> map entry_frame (entries fin) = map entry_frame (entries st)"
  using assms
proof (induction "is" arbitrary: st)
  case Nil
  then show ?case by simp
next
  case (Cons i rest)
  show ?case
  proof (cases "process_model rnd (web i) (wr i) i st")
    case (Inl e)
    with Cons.prems show ?thesis by (auto simp: say_def)
  next
    case (Inr st')
    with Cons.prems have run: "process_models rnd web wr rest st' = (fin, c)" by simp
    note step = process_model_step [OF Inr]
    from Cons.IH [OF run] step show ?thesis by auto
  qed
qed

lemma process_models_ok:
  assumes "list_all (\<lambda>i. has_id (entries st ! i)) is" and "distinct is"
  shows "\<exists>fin. process_models rnd web wr is st = (fin, 0)
    \<and> out fin = out st @ concat (map (\<lambda>i. model_events rnd (web i) (wr i) (entries st ! i)) is)"
  using assms
proof (induction "is" arbitrary: st)
  case Nil
  then show ?case by simp
next
  case (Cons i rest)
  from Cons.prems obtain st' where st': "process_model rnd (web i) (wr i) i st = Inr st'"
    using process_model_total [of st i rnd "web i" "wr i"] by auto
  note step = process_model_step [OF st']
  have same: "entries st' ! k = entries st ! k" if "k \<in> set rest" for k
    using that Cons.prems(2) step(3) [of k] by auto
  have ids: "list_all (\<lambda>i. has_id (entries st' ! i)) rest"
    using Cons.prems(1) same by (auto simp: list_all_iff)
  have dist: "distinct rest" using Cons.prems(2) by simp
  from Cons.IH [OF ids dist] obtain fin where
    fin: "process_models rnd web wr rest st' = (fin, 0)"
      "out fin = out st' @ concat (map (\<lambda>i. model_events rnd (web i) (wr i) (entries st' ! i)) rest)"
    by blast
  have "map (\<lambda>i. model_events rnd (web i) (wr i) (entries st' ! i)) rest
      = map (\<lambda>i. model_events rnd (web i) (wr i) (entries st ! i)) rest"
    using same by simp
  with fin st' step(4) show ?case by simp
qed

lemma process_models_exit:
  "distinct is \<Longrightarrow>
   snd (process_models rnd web wr is st) = (if list_all (\<lambda>i. has_id (entries st ! i)) is then 0 else 1)"
proof (induction "is" arbitrary: st)
  case Nil
  then show ?case by simp
next
  case (Cons i rest)
  show ?case
  proof (cases "process_model rnd (web i) (wr i) i st")
    case (Inl e)
    then have "\<not> has_id (entries st ! i)"
      using process_model_fails [of rnd "web i" "wr i" i st] by auto
    with Inl show ?thesis by simp
  next
    case (Inr st')
    then have id: "has_id (entries st ! i)"
      using process_model_fails [of rnd "web i" "wr i" i st] by auto
    note step = process_model_step [OF Inr]
    have "entries st' ! k = entries st ! k" if "k \<in> set rest" for k
      using that Cons.prems step(3) [of k] by auto
    then have "list_all (\<lambda>i. has_id (entries st' ! i)) rest = list_all (\<lambda>i. has_id (entries st ! i)) rest"
      by (auto simp: list_all_iff)
    with Cons.IH [of st'] Cons.prems Inr id show ?thesis by simp
  qed
qed

lemma catalog_frame_update:
  "catalog_frame (AList.update ''data'' (JArr es) t)
     = AList.update ''data'' (JArr (map entry_frame es)) (catalog_frame t)"
  by (induction t) (auto simp: catalog_frame_def)

lemma catalog_frame_models_data:
  "top st' = top st \<Longrightarrow> map entry_frame (entries st') = map entry_frame (entries st) \<Longrightarrow>
   catalog_frame (models_data st') = catalog_frame (models_data st)"
  by (simp add: models_data_def catalog_frame_update)

lemma process_models_file:
  assumes "process_models rnd web wr is st = (fin, c)"
  shows "catalog_file fin = catalog_file st
    \<or> (\<exists>m. written (catalog_file fin) = Some m \<and> catalog_frame m = catalog_frame (models_data st))"
  using assms
proof (induction "is" arbitrary: st)
  case Nil
  then show ?case by simp
next
  case (Cons i rest)
  show ?case
  proof (cases "process_model rnd (web i) (wr i) i st")
    case (Inl e)
    with Cons.prems show ?thesis by (auto simp: say_def)
  next
    case (Inr st')
    with Cons.prems have run: "process_models rnd web wr rest st' = (fin, c)" by simp
    note step = process_model_step [OF Inr]
    have fr: "catalog_frame (models_data st') = catalog_frame (models_data st)"
      using step(1) step(5) by (rule catalog_frame_models_data)
    from Cons.IH [OF run] fr step(6) show ?thesis by auto
  qed
qed

lemma ids_by_index: "list_all (\<lambda>i. has_id (xs ! i)) [0..<length xs] = list_all has_id xs"
  by (auto simp: list_all_iff all_set_conv_all_nth)

text \<open>
  C1, amended. The process exits with status 1 when the catalog file does not load, when
  what it holds is not a dictionary with a key \<open>data\<close>, when \<open>data\<close> cannot be iterated,
  or when an element of \<open>data\<close> is not a dictionary with a key \<open>id\<close>; it exits with status
  0 otherwise, whatever the pages show and however the writes go. In a run over a catalog
  whose entries all have an \<open>id\<close>, every model is processed, in order, and each scrape
  error, comparison error and commit error is a printed line.
\<close>

theorem exit_status:
  "snd (update_models_with_providers rnd web wr d) = (if usable d then 0 else 1)
   \<and> (load d = Inr (JObj t) \<and> map_of t ''data'' = Some (JArr xs) \<and> list_all has_id xs \<longrightarrow>
        out (fst (update_models_with_providers rnd web wr d))
          = concat (map (\<lambda>i. model_events rnd (web i) (wr i) (xs ! i)) [0..<length xs]))"
proof -
  have status: "snd (update_models_with_providers rnd web wr d) = (if usable d then 0 else 1)"
    by (auto simp: update_models_with_providers_def usable_def fatal_def process_models_exit
        ids_by_index split: sum.splits json.splits option.splits)
  have lines: "out (fst (update_models_with_providers rnd web wr d))
      = concat (map (\<lambda>i. model_events rnd (web i) (wr i) (xs ! i)) [0..<length xs])"
    if "load d = Inr (JObj t)" and "map_of t ''data'' = Some (JArr xs)" and "list_all has_id xs"
  proof -
    let ?st = "\<lparr>top = t, entries = xs, catalog_file = d, out = []\<rparr>"
    have "list_all (\<lambda>i. has_id (entries ?st ! i)) [0..<length xs]"
      using that(3) by (simp add: ids_by_index)
    from process_models_ok [OF this, of rnd web wr] show ?thesis
      using that(1,2) by (auto simp: update_models_with_providers_def)
  qed
  show ?thesis using status lines by blast
qed

text \<open>
  C1, as stated, fails: a catalog file that loads, and whose second entry has no \<open>id\<close>,
  makes the process exit with status 1, after the first model was processed and saved.
\<close>

theorem exit_status_counterexample:
  "load (Doc (JObj [(''data'', JArr [JObj [(''id'', JStr ''a/b'')], JObj [(''name'', JStr ''x'')]])]))
     = Inr (JObj [(''data'', JArr [JObj [(''id'', JStr ''a/b'')], JObj [(''name'', JStr ''x'')]])])
   \<and> snd (update_models_with_providers Fin (always NoProvidersTab) (always WriteOk)
        (Doc (JObj [(''data'', JArr [JObj [(''id'', JStr ''a/b'')], JObj [(''name'', JStr ''x'')]])]))) = 1
   \<and> out (fst (update_models_with_providers Fin (always NoProvidersTab) (always WriteOk)
        (Doc (JObj [(''data'', JArr [JObj [(''id'', JStr ''a/b'')], JObj [(''name'', JStr ''x'')]])]))))
      = [Processing (JStr ''a/b''), Saved (JStr ''a/b''), ErrorUpdating KeyError]"
  by (simp add: update_models_with_providers_def load_def process_model_def
      scrape_providers_def providers_changed_def py_len_def say_def commit_def always_def Let_def)

theorem exit_status_witness:
  "load (Doc (JObj [(''data'', JArr [JObj [(''id'', JStr ''a/b'')]])]))
     = Inr (JObj [(''data'', JArr [JObj [(''id'', JStr ''a/b'')]])])
   \<and> map_of [(''data'', JArr [JObj [(''id'', JStr ''a/b'')]])] ''data'' = Some (JArr [JObj [(''id'', JStr ''a/b'')]])
   \<and> list_all has_id [JObj [(''id'', JStr ''a/b'')]]
   \<and> usable (Doc (JObj [(''data'', JArr [JObj [(''id'', JStr ''a/b'')]])]))
   \<and> snd (update_models_with_providers Fin (always Unreachable) (always WriteOk)
        (Doc (JObj [(''data'', JArr [JObj [(''id'', JStr ''a/b'')]])]))) = 0
   \<and> out (fst (update_models_with_providers Fin (always Unreachable) (always WriteOk)
        (Doc (JObj [(''data'', JArr [JObj [(''id'', JStr ''a/b'')]])]))))
      = [Processing (JStr ''a/b''), ErrorProcessing (JStr ''a/b'') PlaywrightError]"
  using exit_status [of Fin "always Unreachable" "always WriteOk"
      "Doc (JObj [(''data'', JArr [JObj [(''id'', JStr ''a/b'')]])])"
      "[(''data'', JArr [JObj [(''id'', JStr ''a/b'')]])]" "[JObj [(''id'', JStr ''a/b'')]]"]
  by (simp add: load_def has_id_def usable_def model_events_def the_id_def scrape_providers_def
      always_def)

text \<open>What the body of the loop does for a model whose providers changed.\<close>

lemma process_model_changed:
  assumes "entries st ! i = JObj model" and "map_of model ''id'' = Some model_id"
    and "scrape_providers rnd pg = Inr new_providers"
    and "providers_changed (case map_of model ''providers'' of None \<Rightarrow> JArr [] | Some ps \<Rightarrow> ps)
           new_providers = Inr True"
  shows "\<exists>st'. process_model rnd pg w i st = Inr st'
    \<and> entries st' = (entries st)[i := JObj (AList.update ''providers'' (snapshot_json new_providers) model)]
    \<and> out st' = out st @ [Processing model_id, if w = WriteOk then Saved model_id else ErrorSaving model_id OSError]
    \<and> (case w of
          OpenFails \<Rightarrow> catalog_file st' = catalog_file st
        | WriteOk \<Rightarrow> catalog_file st' = Doc (JObj (models_data st'))
        | WriteFails n \<Rightarrow>
            catalog_file st' = Partial (models_data st') n
            \<and> load (catalog_file st') = Inl JSONDecodeError)"
  using assms
  by (cases w)
     (simp_all add: process_model_def Let_def say_def commit_def models_data_def load_def)

text \<open>
  C2, as stated, fails: the catalog is written into the file itself, which opening empties.
  When the write for the only model fails before any character is written, the file is
  left with an empty prefix of the new text: neither the previous content nor the new
  content.
\<close>

theorem partial_write_counterexample:
  "catalog_file (fst (update_models_with_providers Fin (always NoProvidersTab) (always (WriteFails 0))
      (Doc (JObj [(''data'', JArr [JObj [(''id'', JStr ''a/b'')]])]))))
     = Partial [(''data'', JArr [JObj [(''id'', JStr ''a/b''),
                                       (''providers'', snapshot_json [sentinel])]])] 0
   \<and> Partial [(''data'', JArr [JObj [(''id'', JStr ''a/b''),
                                       (''providers'', snapshot_json [sentinel])]])] 0
       \<noteq> Doc (JObj [(''data'', JArr [JObj [(''id'', JStr ''a/b'')]])])
   \<and> Partial [(''data'', JArr [JObj [(''id'', JStr ''a/b''),
                                       (''providers'', snapshot_json [sentinel])]])] 0
       \<noteq> Doc (JObj [(''data'', JArr [JObj [(''id'', JStr ''a/b''),
                                               (''providers'', snapshot_json [sentinel])]])])"
  by (simp add: update_models_with_providers_def load_def process_model_def
      scrape_providers_def providers_changed_def py_len_def say_def commit_def always_def Let_def
      models_data_def)

text \<open>
  C2, amended. For every commit of the catalog: when the file cannot be opened for
  writing, the previous content survives; when the write succeeds, the new content is
  fully written; when the write fails partway through, the file is left with the
  characters written so far of the new text, the previous content is lost and the file
  does not load any more.
\<close>

theorem commit_leaves_file:
  assumes "entries st ! i = JObj model" and "map_of model ''id'' = Some model_id"
    and "scrape_providers rnd pg = Inr new_providers"
    and "providers_changed (case map_of model ''providers'' of None \<Rightarrow> JArr [] | Some ps \<Rightarrow> ps)
           new_providers = Inr True"
  shows "\<exists>st'. process_model rnd pg w i st = Inr st'
    \<and> entries st' = (entries st)[i := JObj (AList.update ''providers'' (snapshot_json new_providers) model)]
    \<and> (case w of
          OpenFails \<Rightarrow> catalog_file st' = catalog_file st
        | WriteOk \<Rightarrow> catalog_file st' = Doc (JObj (models_data st'))
        | WriteFails n \<Rightarrow>
            catalog_file st' = Partial (models_data st') n
            \<and> load (catalog_file st') = Inl JSONDecodeError)"
  using assms
  by (cases w)
     (simp_all add: process_model_def Let_def say_def commit_def models_data_def load_def)

theorem commit_leaves_file_witness:
  "entries \<lparr>top = [(''data'', JArr [JObj [(''id'', JStr ''a/b'')]])],
            entries = [JObj [(''id'', JStr ''a/b'')]],
            catalog_file = Doc (JObj [(''data'', JArr [JObj [(''id'', JStr ''a/b'')]])]),
            out = []\<rparr> ! 0 = JObj [(''id'', JStr ''a/b'')]
   \<and> map_of [(''id'', JStr ''a/b'')] ''id'' = Some (JStr ''a/b'')
   \<and> scrape_providers Fin NoProvidersTab = Inr [sentinel]
   \<and> providers_changed (case map_of [(''id'', JStr ''a/b'')] ''providers'' of None \<Rightarrow> JArr [] | Some ps \<Rightarrow> ps)
        [sentinel] = Inr True
   \<and> (\<exists>st'. process_model Fin NoProvidersTab (WriteFails 7) 0
          \<lparr>top = [(''data'', JArr [JObj [(''id'', JStr ''a/b'')]])],
            entries = [JObj [(''id'', JStr ''a/b'')]],
            catalog_file = Doc (JObj [(''data'', JArr [JObj [(''id'', JStr ''a/b'')]])]),
            out = []\<rparr> = Inr st'
        \<and> catalog_file st' = Partial [(''data'', JArr [JObj [(''id'', JStr ''a/b''),
                                       (''providers'', snapshot_json [sentinel])]])] 7
        \<and> load (catalog_file st') = Inl JSONDecodeError)"
proof -
  let ?st = "\<lparr>top = [(''data'', JArr [JObj [(''id'', JStr ''a/b'')]])],
            entries = [JObj [(''id'', JStr ''a/b'')]],
            catalog_file = Doc (JObj [(''data'', JArr [JObj [(''id'', JStr ''a/b'')]])]),
            out = []\<rparr>"
  have h1: "entries ?st ! 0 = JObj [(''id'', JStr ''a/b'')]" by simp
  have h2: "map_of [(''id'', JStr ''a/b'')] ''id'' = Some (JStr ''a/b'')" by simp
  have h3: "scrape_providers Fin NoProvidersTab = Inr [sentinel]"
    by (simp add: scrape_providers_def)
  have h4: "providers_changed (case map_of [(''id'', JStr ''a/b'')] ''providers'' of None \<Rightarrow> JArr [] | Some ps \<Rightarrow> ps)
        [sentinel] = Inr True"
    by (simp add: providers_changed_def py_len_def)
  from commit_leaves_file [OF h1 h2 h3 h4, of "WriteFails 7"]
  obtain st' where st': "process_model Fin NoProvidersTab (WriteFails 7) 0 ?st = Inr st'"
    "entries st' = (entries ?st)[0 := JObj (AList.update ''providers'' (snapshot_json [sentinel]) [(''id'', JStr ''a/b'')])]"
    "catalog_file st' = Partial (models_data st') 7"
    "load (catalog_file st') = Inl JSONDecodeError"
    by auto
  have "top st' = top ?st" using process_model_step(1) [OF st'(1)] .
  then have "models_data st' = [(''data'', JArr [JObj [(''id'', JStr ''a/b''),
                                       (''providers'', snapshot_json [sentinel])]])]"
    using st'(2) by (simp add: models_data_def)
  with st' h1 h2 h3 h4 show ?thesis by auto
qed

text \<open>
  C3. When the commit for a model fails, the failure is printed, the entry of the model in
  memory has the new providers, and the loop goes on with the models that follow; at the
  end of the run the entry still has the new providers.
\<close>

theorem commit_failure_recovered:
  assumes "load d = Inr (JObj t)" and "map_of t ''data'' = Some (JArr xs)"
    and "i < length xs" and "list_all has_id (take i xs)"
    and "xs ! i = JObj model" and "map_of model ''id'' = Some model_id"
    and "scrape_providers rnd (web i) = Inr new_providers"
    and "providers_changed (case map_of model ''providers'' of None \<Rightarrow> JArr [] | Some ps \<Rightarrow> ps)
           new_providers = Inr True"
    and "wr i \<noteq> WriteOk"
  shows "\<exists>st'. update_models_with_providers rnd web wr d
           = process_models rnd web wr [Suc i..<length xs] st'
    \<and> last (out st') = ErrorSaving model_id OSError
    \<and> entries st' ! i = JObj (AList.update ''providers'' (snapshot_json new_providers) model)
    \<and> entries (fst (update_models_with_providers rnd web wr d)) ! i
        = JObj (AList.update ''providers'' (snapshot_json new_providers) model)
    \<and> ErrorSaving model_id OSError \<in> set (out (fst (update_models_with_providers rnd web wr d)))"
proof -
  let ?st0 = "\<lparr>top = t, entries = xs, catalog_file = d, out = []\<rparr>"
  have run: "update_models_with_providers rnd web wr d = process_models rnd web wr [0..<length xs] ?st0"
    using assms(1,2) by (simp add: update_models_with_providers_def)
  have split: "[0..<length xs] = [0..<i] @ i # [Suc i..<length xs]"
    using assms(3) by (metis le_add1 less_imp_add_positive upt_add_eq_append upt_conv_Cons
        add_0 less_or_eq_imp_le)
  have "list_all (\<lambda>k. has_id (entries ?st0 ! k)) [0..<i]"
    using assms(3,4) by (auto simp: list_all_iff all_set_conv_all_nth)
  from process_models_ok [OF this, of rnd web wr]
  obtain sti where sti: "process_models rnd web wr [0..<i] ?st0 = (sti, 0)" by auto
  from process_models_frame [OF sti] have at_i: "entries sti ! i = JObj model"
    and len_i: "length (entries sti) = length xs"
    using assms(5) by auto
  from process_model_changed [OF at_i assms(6,7,8), of "wr i"] assms(9)
  obtain st' where st': "process_model rnd (web i) (wr i) i sti = Inr st'"
    "entries st' = (entries sti)[i := JObj (AList.update ''providers'' (snapshot_json new_providers) model)]"
    "out st' = out sti @ [Processing model_id, ErrorSaving model_id OSError]"
    by auto
  have rest: "update_models_with_providers rnd web wr d
      = process_models rnd web wr [Suc i..<length xs] st'"
    unfolding run by (subst split) (simp add: process_models_append sti st'(1))
  obtain fin c where fin: "process_models rnd web wr [Suc i..<length xs] st' = (fin, c)"
    by (cases "process_models rnd web wr [Suc i..<length xs] st'")
  from process_models_frame [OF fin]
  have keep: "entries fin ! i = entries st' ! i" and lines: "\<exists>evs. out fin = out st' @ evs"
    by auto
  have new_i: "entries st' ! i = JObj (AList.update ''providers'' (snapshot_json new_providers) model)"
    using st'(2) len_i assms(3) by simp
  have logged: "ErrorSaving model_id OSError \<in> set (out fin)"
    using lines st'(3) by auto
  show ?thesis
    using rest fin keep new_i logged st'(3) by (intro exI [of _ st']) simp
qed

theorem commit_failure_recovered_witness:
  "load (Doc (JObj [(''data'', JArr [JObj [(''id'', JStr ''a/b'')], JObj [(''id'', JStr ''c/d'')]])]))
     = Inr (JObj [(''data'', JArr [JObj [(''id'', JStr ''a/b'')], JObj [(''id'', JStr ''c/d'')]])])
   \<and> map_of [(''data'', JArr [JObj [(''id'', JStr ''a/b'')], JObj [(''id'', JStr ''c/d'')]])] ''data''
       = Some (JArr [JObj [(''id'', JStr ''a/b'')], JObj [(''id'', JStr ''c/d'')]])
   \<and> 0 < length [JObj [(''id'', JStr ''a/b'')], JObj [(''id'', JStr ''c/d'')]]
   \<and> list_all has_id (take 0 [JObj [(''id'', JStr ''a/b'')], JObj [(''id'', JStr ''c/d'')]])
   \<and> [JObj [(''id'', JStr ''a/b'')], JObj [(''id'', JStr ''c/d'')]] ! 0 = JObj [(''id'', JStr ''a/b'')]
   \<and> map_of [(''id'', JStr ''a/b'')] ''id'' = Some (JStr ''a/b'')
   \<and> scrape_providers Fin (always NoProvidersTab 0) = Inr [sentinel]
   \<and> providers_changed (case map_of [(''id'', JStr ''a/b'')] ''providers'' of None \<Rightarrow> JArr [] | Some ps \<Rightarrow> ps)
        [sentinel] = Inr True
   \<and> always OpenFails 0 \<noteq> WriteOk
   \<and> entries (fst (update_models_with_providers Fin (always NoProvidersTab) (always OpenFails)
        (Doc (JObj [(''data'', JArr [JObj [(''id'', JStr ''a/b'')], JObj [(''id'', JStr ''c/d'')]])])))) ! 0
       = JObj [(''id'', JStr ''a/b''), (''providers'', snapshot_json [sentinel])]
   \<and> ErrorSaving (JStr ''a/b'') OSError
       \<in> set (out (fst (update_models_with_providers Fin (always NoProvidersTab) (always OpenFails)
        (Doc (JObj [(''data'', JArr [JObj [(''id'', JStr ''a/b'')], JObj [(''id'', JStr ''c/d'')]])])))))
   \<and> out (fst (update_models_with_providers Fin (always NoProvidersTab) (always OpenFails)
        (Doc (JObj [(''data'', JArr [JObj [(''id'', JStr ''a/b'')], JObj [(''id'', JStr ''c/d'')]])]))))
       = [Processing (JStr ''a/b''), ErrorSaving (JStr ''a/b'') OSError,
          Processing (JStr ''c/d''), ErrorSaving (JStr ''c/d'') OSError]"
proof -
  let ?xs = "[JObj [(''id'', JStr ''a/b'')], JObj [(''id'', JStr ''c/d'')]]"
  let ?d = "Doc (JObj [(''data'', JArr ?xs)])"
  have h1: "load ?d = Inr (JObj [(''data'', JArr ?xs)])" by (simp add: load_def)
  have h2: "map_of [(''data'', JArr ?xs)] ''data'' = Some (JArr ?xs)" by simp
  have h3: "0 < length ?xs" by simp
  have h4: "list_all has_id (take 0 ?xs)" by simp
  have h5: "?xs ! 0 = JObj [(''id'', JStr ''a/b'')]" by simp
  have h6: "map_of [(''id'', JStr ''a/b'')] ''id'' = Some (JStr ''a/b'')" by simp
  have h7: "scrape_providers Fin (always NoProvidersTab 0) = Inr [sentinel]"
    by (simp add: scrape_providers_def always_def)
  have h8: "providers_changed (case map_of [(''id'', JStr ''a/b'')] ''providers'' of None \<Rightarrow> JArr [] | Some ps \<Rightarrow> ps)
        [sentinel] = Inr True"
    by (simp add: providers_changed_def py_len_def)
  have h9: "always OpenFails 0 \<noteq> WriteOk" by (simp add: always_def)
  have lines: "out (fst (update_models_with_providers Fin (always NoProvidersTab) (always OpenFails) ?d))
       = [Processing (JStr ''a/b''), ErrorSaving (JStr ''a/b'') OSError,
          Processing (JStr ''c/d''), ErrorSaving (JStr ''c/d'') OSError]"
    by (simp add: update_models_with_providers_def load_def process_model_def
        scrape_providers_def providers_changed_def py_len_def say_def commit_def always_def Let_def)
  from commit_failure_recovered [where web = "always NoProvidersTab" and wr = "always OpenFails"
      and i = 0, OF h1 h2 h3 h4 h5 h6 h7 h8 h9]
  have "entries (fst (update_models_with_providers Fin (always NoProvidersTab) (always OpenFails) ?d)) ! 0
        = JObj (AList.update ''providers'' (snapshot_json [sentinel]) [(''id'', JStr ''a/b'')])
      \<and> ErrorSaving (JStr ''a/b'') OSError
        \<in> set (out (fst (update_models_with_providers Fin (always NoProvidersTab) (always OpenFails) ?d)))"
    by blast
  then show ?thesis using h1 h2 h3 h4 h5 h6 h7 h8 h9 lines by simp
qed

text \<open>
  C4. In a run over a catalog, the entries of \<open>data\<close> stay as many and in the same order,
  every key of an entry other than \<open>providers\<close> keeps its value and its place, and so does
  every other key of the catalog; this holds in memory and for what was written to the
  file.
\<close>

theorem only_providers_replaced:
  assumes "load d = Inr (JObj t)" and "map_of t ''data'' = Some (JArr xs)"
    and "update_models_with_providers rnd web wr d = (fin, status)"
  shows "top fin = t \<and> length (entries fin) = length xs
    \<and> map entry_frame (entries fin) = map entry_frame xs
    \<and> catalog_frame (models_data fin) = catalog_frame t
    \<and> (catalog_file fin = d
        \<or> (\<exists>m. written (catalog_file fin) = Some m \<and> catalog_frame m = catalog_frame t))"
proof -
  let ?st0 = "\<lparr>top = t, entries = xs, catalog_file = d, out = []\<rparr>"
  have run: "process_models rnd web wr [0..<length xs] ?st0 = (fin, status)"
    using assms by (simp add: update_models_with_providers_def)
  have start: "models_data ?st0 = t"
    using assms(2) by (simp add: models_data_def update_triv)
  from process_models_frame [OF run]
  have fr: "top fin = t" "length (entries fin) = length xs"
    "map entry_frame (entries fin) = map entry_frame xs"
    by auto
  have "catalog_frame (models_data fin) = catalog_frame (models_data ?st0)"
    using fr by (intro catalog_frame_models_data) simp_all
  then have mem: "catalog_frame (models_data fin) = catalog_frame t"
    using start by simp
  from process_models_file [OF run] start
  have "catalog_file fin = d
        \<or> (\<exists>m. written (catalog_file fin) = Some m \<and> catalog_frame m = catalog_frame t)"
    by simp
  with fr mem show ?thesis by simp
qed

theorem only_providers_replaced_witness:
  "load (Doc (JObj [(''object'', JStr ''list''),
               (''data'', JArr [JObj [(''id'', JStr ''a/b''), (''providers'', JArr []), (''owner'', JInt 7)]])]))
     = Inr (JObj [(''object'', JStr ''list''),
               (''data'', JArr [JObj [(''id'', JStr ''a/b''), (''providers'', JArr []), (''owner'', JInt 7)]])])
   \<and> map_of [(''object'', JStr ''list''),
               (''data'', JArr [JObj [(''id'', JStr ''a/b''), (''providers'', JArr []), (''owner'', JInt 7)]])] ''data''
       = Some (JArr [JObj [(''id'', JStr ''a/b''), (''providers'', JArr []), (''owner'', JInt 7)]])
   \<and> update_models_with_providers Fin (always NoProvidersTab) (always WriteOk)
        (Doc (JObj [(''object'', JStr ''list''),
               (''data'', JArr [JObj [(''id'', JStr ''a/b''), (''providers'', JArr []), (''owner'', JInt 7)]])]))
       = (\<lparr>top = [(''object'', JStr ''list''),
               (''data'', JArr [JObj [(''id'', JStr ''a/b''), (''providers'', JArr []), (''owner'', JInt 7)]])],
           entries = [JObj [(''id'', JStr ''a/b''), (''providers'', snapshot_json [sentinel]), (''owner'', JInt 7)]],
           catalog_file = Doc (JObj [(''object'', JStr ''list''),
               (''data'', JArr [JObj [(''id'', JStr ''a/b''), (''providers'', snapshot_json [sentinel]),
                                      (''owner'', JInt 7)]])]),
           out = [Processing (JStr ''a/b''), Saved (JStr ''a/b'')]\<rparr>, 0)
   \<and> map entry_frame [JObj [(''id'', JStr ''a/b''), (''providers'', snapshot_json [sentinel]), (''owner'', JInt 7)]]
       = map entry_frame [JObj [(''id'', JStr ''a/b''), (''providers'', JArr []), (''owner'', JInt 7)]]
   \<and> map entry_frame [JObj [(''id'', JStr ''a/b''), (''providers'', JArr []), (''owner'', JInt 7)]]
       = [JObj [(''id'', JStr ''a/b''), (''owner'', JInt 7)]]"
proof -
  let ?xs = "[JObj [(''id'', JStr ''a/b''), (''providers'', JArr []), (''owner'', JInt 7)]]"
  let ?t = "[(''object'', JStr ''list''), (''data'', JArr ?xs)]"
  let ?fin = "\<lparr>top = ?t,
           entries = [JObj [(''id'', JStr ''a/b''), (''providers'', snapshot_json [sentinel]), (''owner'', JInt 7)]],
           catalog_file = Doc (JObj [(''object'', JStr ''list''),
               (''data'', JArr [JObj [(''id'', JStr ''a/b''), (''providers'', snapshot_json [sentinel]),
                                      (''owner'', JInt 7)]])]),
           out = [Processing (JStr ''a/b''), Saved (JStr ''a/b'')]\<rparr>"
  have h1: "load (Doc (JObj ?t)) = Inr (JObj ?t)" by (simp add: load_def)
  have h2: "map_of ?t ''data'' = Some (JArr ?xs)" by simp
  have h3: "update_models_with_providers Fin (always NoProvidersTab) (always WriteOk) (Doc (JObj ?t)) = (?fin, 0)"
    by (simp add: update_models_with_providers_def load_def process_model_def
        scrape_providers_def providers_changed_def py_len_def say_def commit_def always_def Let_def
        models_data_def)
  from only_providers_replaced [OF h1 h2 h3]
  have "map entry_frame (entries ?fin) = map entry_frame ?xs" by blast
  moreover have "map entry_frame ?xs = [JObj [(''id'', JStr ''a/b''), (''owner'', JInt 7)]]"
    by (simp add: entry_frame_def)
  ultimately show ?thesis using h1 h2 h3 by simp
qed

end
